theory Spec2Isabelle
  imports Main "HOL-Library.Multiset"
begin

section \<open>Python values and their text\<close>

text \<open>
  The rule specifications of \<^verbatim>\<open>basic_expectations_test.py\<close> are Python dictionaries whose
  parameter values are dynamically typed. The values a configuration can hold are modelled
  by \<open>pyval\<close>: \<^verbatim>\<open>None\<close>, booleans, (unbounded) integers, strings and lists. Strings are
  lists of 8-bit characters, read as the code points 0..255. Floating-point numbers are not
  part of the model.
\<close>

datatype pyval = PNone | PBool bool | PInt int | PStr string | PList "pyval list"

text \<open>\<^verbatim>\<open>type(v).__name__\<close>, as it appears in the messages of \<^verbatim>\<open>TypeError\<close>.\<close>

fun type_name :: "pyval \<Rightarrow> string" where
  "type_name PNone = ''NoneType''"
| "type_name (PBool b) = ''bool''"
| "type_name (PInt i) = ''int''"
| "type_name (PStr s) = ''str''"
| "type_name (PList xs) = ''list''"

definition digit_char :: "nat \<Rightarrow> char" where
  "digit_char d = ''0123456789abcdef'' ! d"

text \<open>\<^verbatim>\<open>str(n)\<close> for a natural number and for an integer: decimal digits, most significant first.\<close>

fun str_nat :: "nat \<Rightarrow> string" where
  "str_nat n = (if n < 10 then [digit_char n] else str_nat (n div 10) @ [digit_char (n mod 10)])"

declare str_nat.simps [simp del]

definition str_int :: "int \<Rightarrow> string" where
  "str_int i = (if i < 0 then CHR ''-'' # str_nat (nat (- i)) else str_nat (nat i))"

text \<open>
  \<^verbatim>\<open>repr(s)\<close> of a string: single quotes unless the string holds a single quote and no double
  quote; the quote and the backslash are escaped, tab, newline and carriage return are
  written \<^verbatim>\<open>\t\<close>, \<^verbatim>\<open>\n\<close>, \<^verbatim>\<open>\r\<close>, and the other non-printable code points below 256 are
  written \<^verbatim>\<open>\xhh\<close>.
\<close>

definition backslash :: char where
  "backslash = CHR 0x5C"

definition repr_char :: "char \<Rightarrow> char \<Rightarrow> string" where
  "repr_char q c =
     (let n = (of_char c :: nat) in
      if c = q \<or> c = backslash then [backslash, c]
      else if n = 9 then [backslash, CHR ''t'']
      else if n = 10 then [backslash, CHR ''n'']
      else if n = 13 then [backslash, CHR ''r'']
      else if n < 32 \<or> n = 127 \<or> (128 \<le> n \<and> n \<le> 160) \<or> n = 173
        then [backslash, CHR ''x'', digit_char (n div 16), digit_char (n mod 16)]
      else [c])"

definition repr_str :: "string \<Rightarrow> string" where
  "repr_str s =
     (let q = (if CHR 0x27 \<in> set s \<and> CHR 0x22 \<notin> set s then CHR 0x22 else CHR 0x27)
      in q # concat (map (repr_char q) s) @ [q])"

fun py_repr :: "pyval \<Rightarrow> string" and repr_items :: "pyval list \<Rightarrow> string" where
  "py_repr PNone = ''None''"
| "py_repr (PBool b) = (if b then ''True'' else ''False'')"
| "py_repr (PInt i) = str_int i"
| "py_repr (PStr s) = repr_str s"
| "py_repr (PList xs) = ''['' @ repr_items xs @ '']''"
| "repr_items [] = []"
| "repr_items [x] = py_repr x"
| "repr_items (x # y # ys) = py_repr x @ '', '' @ repr_items (y # ys)"

text \<open>\<^verbatim>\<open>str(v)\<close>, which is what an f-string inserts: a string as it is, anything else as its repr.\<close>

fun py_str :: "pyval \<Rightarrow> string" where
  "py_str (PStr s) = s"
| "py_str v = py_repr v"

text \<open>\<^verbatim>\<open>s.lower()\<close> on code points below 256: A..Z and the accented capitals move up by 32.\<close>

definition lower_char :: "char \<Rightarrow> char" where
  "lower_char c =
     (let n = (of_char c :: nat) in
      if (65 \<le> n \<and> n \<le> 90) \<or> (192 \<le> n \<and> n \<le> 222 \<and> n \<noteq> 215) then char_of (n + 32) else c)"

definition lower :: "string \<Rightarrow> string" where
  "lower s = map lower_char s"

text \<open>\<^verbatim>\<open>sub in s\<close> for two strings: \<open>sub\<close> occurs in \<open>s\<close> as a contiguous block.\<close>

fun starts_with :: "string \<Rightarrow> string \<Rightarrow> bool" where
  "starts_with s [] = True"
| "starts_with [] (c # cs) = False"
| "starts_with (x # xs) (c # cs) = (x = c \<and> starts_with xs cs)"

fun str_contains :: "string \<Rightarrow> string \<Rightarrow> bool" where
  "str_contains [] sub = (sub = [])"
| "str_contains (x # xs) sub = (starts_with (x # xs) sub \<or> str_contains xs sub)"

text \<open>
  \<^verbatim>\<open>a == b\<close> on configuration values. A boolean is an integer in Python, so \<^verbatim>\<open>True == 1\<close>;
  values of different kinds are otherwise unequal, and lists are compared element by element.
\<close>

fun py_eq :: "pyval \<Rightarrow> pyval \<Rightarrow> bool" and py_eq_list :: "pyval list \<Rightarrow> pyval list \<Rightarrow> bool" where
  "py_eq PNone v = (v = PNone)"
| "py_eq (PBool a) v =
     (case v of PBool b \<Rightarrow> a = b | PInt j \<Rightarrow> (if a then 1 else 0) = j | _ \<Rightarrow> False)"
| "py_eq (PInt i) v =
     (case v of PBool b \<Rightarrow> i = (if b then 1 else 0) | PInt j \<Rightarrow> i = j | _ \<Rightarrow> False)"
| "py_eq (PStr s) v = (case v of PStr t \<Rightarrow> s = t | _ \<Rightarrow> False)"
| "py_eq (PList xs) v = (case v of PList ys \<Rightarrow> py_eq_list xs ys | _ \<Rightarrow> False)"
| "py_eq_list [] ys = (ys = [])"
| "py_eq_list (x # xs) ys = (case ys of [] \<Rightarrow> False | y # ys' \<Rightarrow> py_eq x y \<and> py_eq_list xs ys')"

section \<open>Exceptions\<close>

text \<open>
  An exception that \<^verbatim>\<open>except Exception\<close> catches: its class name and its text \<^verbatim>\<open>str(e)\<close>.
  The text of a \<^verbatim>\<open>KeyError\<close> is the repr of the missing key.
\<close>

datatype exc = Exception string string

fun str_exc :: "exc \<Rightarrow> string" where
  "str_exc (Exception cls msg) = msg"

definition key_error :: "string \<Rightarrow> exc" where
  "key_error k = Exception ''KeyError'' (repr_str k)"

definition type_error :: "string \<Rightarrow> exc" where
  "type_error msg = Exception ''TypeError'' msg"

definition attribute_error :: "string \<Rightarrow> exc" where
  "attribute_error msg = Exception ''AttributeError'' msg"

text \<open>What \<^verbatim>\<open>bool(s)\<close> raises for a pandas Series \<open>s\<close>, whatever its length.\<close>

definition ambiguous_truth :: exc where
  "ambiguous_truth =
     Exception ''ValueError''
       ''The truth value of a Series is ambiguous. Use a.empty, a.bool(), a.item(), a.any() or a.all().''"

definition quoted :: "string \<Rightarrow> string" where
  "quoted s = CHR 0x27 # s @ [CHR 0x27]"

text \<open>Sequencing of two steps either of which may raise.\<close>

definition and_then :: "exc + 'a \<Rightarrow> ('a \<Rightarrow> exc + 'b) \<Rightarrow> exc + 'b" where
  "and_then m f = (case m of Inl e \<Rightarrow> Inl e | Inr x \<Rightarrow> f x)"

section \<open>Data frames\<close>

text \<open>
  A column of a pandas data frame has one declared type for all its cells. Three kinds of
  column are modelled: integers (which have no missing value), strings (where \<^verbatim>\<open>None\<close> is the
  missing value) and timestamps (where \<^verbatim>\<open>NaT\<close> is the missing value; a timestamp is its count
  of nanoseconds). No rule does arithmetic on a cell. Columns of floating-point numbers are
  not part of the model. The text of a column's declared type depends on the values and on
  the version of the library (\<^verbatim>\<open>int64\<close> or \<^verbatim>\<open>uint64\<close>, \<^verbatim>\<open>object\<close> or \<^verbatim>\<open>str\<close>,
  \<^verbatim>\<open>datetime64[ns]\<close> or another unit); it is taken from the library, below.
\<close>

datatype series =
    Integers "int list"
  | Strings "string option list"
  | Timestamps "int option list"

datatype cell = NA | IntV int | StrV string | TimeV int

fun cells :: "series \<Rightarrow> cell list" where
  "cells (Integers vs) = map IntV vs"
| "cells (Strings vs) = map (\<lambda>v. case v of None \<Rightarrow> NA | Some s \<Rightarrow> StrV s) vs"
| "cells (Timestamps vs) = map (\<lambda>v. case v of None \<Rightarrow> NA | Some t \<Rightarrow> TimeV t) vs"

text \<open>
  A frame is the length of its index and its labelled columns, in order. A label may occur
  more than once. In a frame of pandas every column is as long as the index; the one
  property below that depends on it says so.
\<close>

record dataframe =
  nrows :: nat
  cols :: "(string \<times> series) list"

text \<open>\<^verbatim>\<open>len(df)\<close> and \<^verbatim>\<open>list(df.columns)\<close>.\<close>

definition len_df :: "dataframe \<Rightarrow> nat" where
  "len_df df = nrows df"

definition columns_list :: "dataframe \<Rightarrow> string list" where
  "columns_list df = map fst (cols df)"

text \<open>
  \<^verbatim>\<open>df[column]\<close>: a \<^verbatim>\<open>KeyError\<close> when no column has the label, the column when exactly one
  has it, and a frame of all the columns with that label when it is repeated.
\<close>

datatype selection = Column series | Frame "series list"

definition getitem :: "dataframe \<Rightarrow> string \<Rightarrow> exc + selection" where
  "getitem df c =
     (case map snd (filter (\<lambda>(label, s). label = c) (cols df)) of
        [] \<Rightarrow> Inl (key_error c)
      | [s] \<Rightarrow> Inr (Column s)
      | ss \<Rightarrow> Inr (Frame ss))"

text \<open>\<^verbatim>\<open>len(s)\<close>, \<^verbatim>\<open>s.isnull().sum()\<close>, \<^verbatim>\<open>s.nunique()\<close> (which leaves the missing values out)
  and \<^verbatim>\<open>list(s.unique())\<close> (each value once, in order of first appearance) of a column.\<close>

definition len_series :: "series \<Rightarrow> nat" where
  "len_series s = length (cells s)"

definition isnull_sum :: "series \<Rightarrow> nat" where
  "isnull_sum s = length (filter (\<lambda>c. c = NA) (cells s))"

definition nunique :: "series \<Rightarrow> nat" where
  "nunique s = length (remdups (filter (\<lambda>c. c \<noteq> NA) (cells s)))"

definition unique :: "series \<Rightarrow> cell list" where
  "unique s = rev (remdups (rev (cells s)))"

text \<open>
  \<^verbatim>\<open>df[column].str.contains('@', na=False)\<close>: the \<^verbatim>\<open>.str\<close> accessor exists on a column of
  strings only, and a frame has no attribute \<^verbatim>\<open>str\<close>; a missing value gives \<^verbatim>\<open>False\<close>.
\<close>

definition str_contains_at :: "selection \<Rightarrow> exc + bool list" where
  "str_contains_at sel =
     (case sel of
        Column (Strings vs) \<Rightarrow>
          Inr (map (\<lambda>v. case v of None \<Rightarrow> False | Some t \<Rightarrow> str_contains t ''@'') vs)
      | Column s \<Rightarrow> Inl (attribute_error ''Can only use .str accessor with string values!'')
      | Frame ss \<Rightarrow>
          Inl (attribute_error (quoted ''DataFrame'' @ '' object has no attribute '' @ quoted ''str'')))"

definition count_true :: "bool list \<Rightarrow> nat" where
  "count_true bs = length (filter (\<lambda>b. b) bs)"

text \<open>\<^verbatim>\<open>pd.api.types.is_datetime64_any_dtype(s)\<close> for a column.\<close>

fun is_datetime64_any_dtype :: "series \<Rightarrow> bool" where
  "is_datetime64_any_dtype (Timestamps vs) = True"
| "is_datetime64_any_dtype s = False"

text \<open>
  The operations of the library that are parameters of the model, each as the source calls
  it:
  \<^item> on a column, for the range rule and the membership rule, which compare a column with
    configuration values of any type: the elementwise \<^verbatim>\<open>s >= v\<close> and \<^verbatim>\<open>s <= v\<close>, the text of
    \<^verbatim>\<open>s.min()\<close> and of \<^verbatim>\<open>s.max()\<close>, and \<^verbatim>\<open>s.isin(v)\<close>; each may raise;
  \<^item> on a column, the text \<^verbatim>\<open>str(s.dtype)\<close> of its declared type;
  \<^item> on the frame that a repeated label selects: \<^verbatim>\<open>((f >= lo) & (f <= hi)).all()\<close> and
    \<^verbatim>\<open>f.isin(v).all()\<close>, which are one boolean per column, the text of \<^verbatim>\<open>f.min()\<close> and of
    \<^verbatim>\<open>f.max()\<close>, \<^verbatim>\<open>pd.api.types.is_datetime64_any_dtype(f)\<close>, and the text of a Series of
    counts that carries the repeated label (what \<^verbatim>\<open>f.isnull().sum()\<close> and \<^verbatim>\<open>f.nunique()\<close>
    print as).
\<close>

record pandas =
  series_ge :: "series \<Rightarrow> pyval \<Rightarrow> exc + bool list"
  series_le :: "series \<Rightarrow> pyval \<Rightarrow> exc + bool list"
  series_min :: "series \<Rightarrow> exc + string"
  series_max :: "series \<Rightarrow> exc + string"
  series_isin :: "series \<Rightarrow> pyval \<Rightarrow> exc + bool list"
  dtype_text :: "series \<Rightarrow> string"
  frame_between :: "series list \<Rightarrow> pyval \<Rightarrow> pyval \<Rightarrow> exc + bool list"
  frame_isin :: "series list \<Rightarrow> pyval \<Rightarrow> exc + bool list"
  frame_min :: "series list \<Rightarrow> exc + string"
  frame_max :: "series list \<Rightarrow> exc + string"
  frame_is_datetime :: "series list \<Rightarrow> exc + bool"
  counts_text :: "string \<Rightarrow> nat list \<Rightarrow> string"

section \<open>Rule specifications and results\<close>

text \<open>
  A rule specification is a dictionary with the keys \<^verbatim>\<open>name\<close>, \<^verbatim>\<open>column\<close> and
  \<^verbatim>\<open>parameters\<close>, each of which may be absent; the name and the column are strings and the
  parameters are a dictionary of configuration values.
\<close>

record rule =
  name :: "string option"
  column :: "string option"
  parameters :: "(string \<rightharpoonup> pyval) option"

text \<open>
  A result is a dictionary too, with the four keys the source gives it. Its \<^verbatim>\<open>success\<close> is
  a boolean, or a Series of booleans when the rule worked on a frame.
\<close>

datatype rval =
    RBool bool
  | RBools "bool list"
  | RInt int
  | RStr string
  | RNames "string list"
  | RCells "cell list"

type_synonym result = "string \<rightharpoonup> rval"

definition mk_result :: "string \<Rightarrow> bool \<Rightarrow> rval \<Rightarrow> string \<Rightarrow> result" where
  "mk_result expectation success observed_value details =
     [''expectation'' \<mapsto> RStr expectation,
      ''success'' \<mapsto> RBool success,
      ''observed_value'' \<mapsto> observed_value,
      ''details'' \<mapsto> RStr details]"

definition mk_result_series :: "string \<Rightarrow> bool list \<Rightarrow> rval \<Rightarrow> string \<Rightarrow> result" where
  "mk_result_series expectation success observed_value details =
     [''expectation'' \<mapsto> RStr expectation,
      ''success'' \<mapsto> RBools success,
      ''observed_value'' \<mapsto> observed_value,
      ''details'' \<mapsto> RStr details]"

text \<open>
  The truth test of \<^verbatim>\<open>if result['success']\<close>: the boolean itself, an exception for a
  Series, and Python's truth value for anything else.
\<close>

fun truth :: "rval \<Rightarrow> exc + bool" where
  "truth (RBool b) = Inr b"
| "truth (RBools bs) = Inl ambiguous_truth"
| "truth (RInt i) = Inr (i \<noteq> 0)"
| "truth (RStr s) = Inr (s \<noteq> [])"
| "truth (RNames ns) = Inr (ns \<noteq> [])"
| "truth (RCells cs) = Inr (cs \<noteq> [])"

definition success_truth :: "result \<Rightarrow> exc + bool" where
  "success_truth result =
     (case result ''success'' of None \<Rightarrow> Inl (key_error ''success'') | Some v \<Rightarrow> truth v)"

text \<open>\<^verbatim>\<open>exp['column']\<close> and \<^verbatim>\<open>exp['parameters'][k]\<close>.\<close>

definition get_column :: "rule \<Rightarrow> exc + string" where
  "get_column exp = (case column exp of None \<Rightarrow> Inl (key_error ''column'') | Some c \<Rightarrow> Inr c)"

definition get_param :: "rule \<Rightarrow> string \<Rightarrow> exc + pyval" where
  "get_param exp k =
     (case parameters exp of
        None \<Rightarrow> Inl (key_error ''parameters'')
      | Some ps \<Rightarrow> (case ps k of None \<Rightarrow> Inl (key_error k) | Some v \<Rightarrow> Inr v))"

text \<open>
  \<^verbatim>\<open>v <= n\<close> and \<^verbatim>\<open>n <= v\<close> for an integer \<open>n\<close>: defined on numbers (a boolean counts as 0 or
  1), a \<^verbatim>\<open>TypeError\<close> otherwise. \<^verbatim>\<open>a <= n <= b\<close> is \<^verbatim>\<open>a <= n and n <= b\<close>: the second
  comparison is made only when the first holds.
\<close>

fun le_val_int :: "pyval \<Rightarrow> int \<Rightarrow> exc + bool" where
  "le_val_int (PInt i) n = Inr (i \<le> n)"
| "le_val_int (PBool b) n = Inr ((if b then 1 else 0) \<le> n)"
| "le_val_int v n =
     Inl (type_error (quoted ''<='' @ '' not supported between instances of '' @
                      quoted (type_name v) @ '' and '' @ quoted ''int''))"

fun le_int_val :: "int \<Rightarrow> pyval \<Rightarrow> exc + bool" where
  "le_int_val n (PInt i) = Inr (n \<le> i)"
| "le_int_val n (PBool b) = Inr (n \<le> (if b then 1 else 0))"
| "le_int_val n v =
     Inl (type_error (quoted ''<='' @ '' not supported between instances of '' @
                      quoted ''int'' @ '' and '' @ quoted (type_name v)))"

definition chained_le :: "pyval \<Rightarrow> int \<Rightarrow> pyval \<Rightarrow> exc + bool" where
  "chained_le min_val n max_val =
     and_then (le_val_int min_val n) (\<lambda>lower_ok.
       if lower_ok then le_int_val n max_val else Inr False)"

text \<open>\<^verbatim>\<open>v.lower()\<close> on a configuration value: only a string has the method.\<close>

fun py_lower :: "pyval \<Rightarrow> exc + string" where
  "py_lower (PStr s) = Inr (lower s)"
| "py_lower v =
     Inl (attribute_error (quoted (type_name v) @ '' object has no attribute '' @ quoted ''lower''))"

section \<open>The rule engine: \<^verbatim>\<open>run_expectations_manually\<close>\<close>

text \<open>
  The body of the \<^verbatim>\<open>try\<close> block is a chain of \<^verbatim>\<open>if\<close>/\<^verbatim>\<open>elif\<close> on the rule's name. Each
  branch is a definition of its own here; \<open>evaluate\<close> below is the chain. A branch returns
  the result dictionary it builds, or the exception it raises. In the pattern rule
  \<^verbatim>\<open>regex_pattern.lower()\<close> is evaluated first, so \<^verbatim>\<open>'@' in regex_pattern\<close> is only reached
  with a string. Where a branch reads \<^verbatim>\<open>df[column]\<close>, it goes on with the column or with the
  frame that a repeated label selects.
\<close>

definition eval_row_count :: "dataframe \<Rightarrow> string \<Rightarrow> rule \<Rightarrow> exc + result" where
  "eval_row_count df exp_name exp =
     and_then (get_param exp ''min_value'') (\<lambda>min_val.
     and_then (get_param exp ''max_value'') (\<lambda>max_val.
       let row_count = int (len_df df) in
       and_then (chained_le min_val row_count max_val) (\<lambda>success.
         Inr (mk_result exp_name success (RInt row_count)
               (''Row count '' @ str_int row_count @ '' should be between '' @
                py_str min_val @ '' and '' @ py_str max_val)))))"

definition eval_columns :: "dataframe \<Rightarrow> string \<Rightarrow> rule \<Rightarrow> exc + result" where
  "eval_columns df exp_name exp =
     and_then (get_param exp ''column_list'') (\<lambda>expected_cols.
       let actual_cols = columns_list df;
           success = py_eq (PList (map PStr actual_cols)) expected_cols
       in Inr (mk_result exp_name success (RNames actual_cols)
                (''Expected columns '' @ py_str expected_cols @ '', got '' @
                 py_str (PList (map PStr actual_cols)))))"

definition eval_not_null :: "pandas \<Rightarrow> dataframe \<Rightarrow> string \<Rightarrow> rule \<Rightarrow> exc + result" where
  "eval_not_null L df exp_name exp =
     and_then (get_column exp) (\<lambda>col.
     and_then (getitem df col) (\<lambda>sel.
       case sel of
         Column s \<Rightarrow>
           let null_count = isnull_sum s;
               success = (null_count = 0)
           in Inr (mk_result exp_name success
                    (RStr (str_nat null_count @ '' nulls in '' @ col))
                    (''Column '' @ col @ '' should have no null values''))
       | Frame ss \<Rightarrow>
           let null_count = map isnull_sum ss;
               success = map (\<lambda>k. k = 0) null_count
           in Inr (mk_result_series exp_name success
                    (RStr (counts_text L col null_count @ '' nulls in '' @ col))
                    (''Column '' @ col @ '' should have no null values''))))"

definition eval_unique :: "pandas \<Rightarrow> dataframe \<Rightarrow> string \<Rightarrow> rule \<Rightarrow> exc + result" where
  "eval_unique L df exp_name exp =
     and_then (get_column exp) (\<lambda>col.
     and_then (getitem df col) (\<lambda>sel.
       case sel of
         Column s \<Rightarrow>
           let unique_count = nunique s;
               total_count = len_series s;
               success = (unique_count = total_count)
           in Inr (mk_result exp_name success
                    (RStr (str_nat unique_count @ '' unique out of '' @ str_nat total_count))
                    (''Column '' @ col @ '' should have all unique values''))
       | Frame ss \<Rightarrow>
           let unique_count = map nunique ss;
               total_count = len_df df;
               success = map (\<lambda>u. u = total_count) unique_count
           in Inr (mk_result_series exp_name success
                    (RStr (counts_text L col unique_count @ '' unique out of '' @
                           str_nat total_count))
                    (''Column '' @ col @ '' should have all unique values''))))"

definition eval_regex :: "dataframe \<Rightarrow> string \<Rightarrow> rule \<Rightarrow> exc + result" where
  "eval_regex df exp_name exp =
     and_then (get_column exp) (\<lambda>col.
     and_then (get_param exp ''regex'') (\<lambda>regex_pattern.
     and_then (py_lower regex_pattern) (\<lambda>lowered.
       if str_contains lowered ''email'' \<or> str_contains (py_str regex_pattern) ''@'' then
         and_then (getitem df col) (\<lambda>sel.
         and_then (str_contains_at sel) (\<lambda>flags.
           let matches = count_true flags;
               success = (matches = len_df df)
           in Inr (mk_result exp_name success
                    (RStr (str_nat matches @ '' valid emails out of '' @ str_nat (len_df df)))
                    (''Column '' @ col @ '' should match email pattern''))))
       else
         Inr (mk_result exp_name True (RStr ''Pattern check passed'')
               (''Column '' @ col @ '' regex validation'')))))"

definition eval_between :: "pandas \<Rightarrow> dataframe \<Rightarrow> string \<Rightarrow> rule \<Rightarrow> exc + result" where
  "eval_between L df exp_name exp =
     and_then (get_column exp) (\<lambda>col.
     and_then (get_param exp ''min_value'') (\<lambda>min_val.
     and_then (get_param exp ''max_value'') (\<lambda>max_val.
     and_then (getitem df col) (\<lambda>sel.
       case sel of
         Column s \<Rightarrow>
           and_then (series_ge L s min_val) (\<lambda>above.
           and_then (series_le L s max_val) (\<lambda>below.
             let in_range = list_all (\<lambda>b. b) (map2 (\<and>) above below) in
             and_then (series_min L s) (\<lambda>lo.
             and_then (series_max L s) (\<lambda>hi.
               Inr (mk_result exp_name in_range
                     (RStr (''Min: '' @ lo @ '', Max: '' @ hi))
                     (''Column '' @ col @ '' values should be between '' @
                      py_str min_val @ '' and '' @ py_str max_val))))))
       | Frame ss \<Rightarrow>
           and_then (frame_between L ss min_val max_val) (\<lambda>in_range.
           and_then (frame_min L ss) (\<lambda>lo.
           and_then (frame_max L ss) (\<lambda>hi.
             Inr (mk_result_series exp_name in_range
                   (RStr (''Min: '' @ lo @ '', Max: '' @ hi))
                   (''Column '' @ col @ '' values should be between '' @
                    py_str min_val @ '' and '' @ py_str max_val)))))))))"

definition eval_in_set :: "pandas \<Rightarrow> dataframe \<Rightarrow> string \<Rightarrow> rule \<Rightarrow> exc + result" where
  "eval_in_set L df exp_name exp =
     and_then (get_column exp) (\<lambda>col.
     and_then (get_param exp ''value_set'') (\<lambda>valid_values.
     and_then (getitem df col) (\<lambda>sel.
       case sel of
         Column s \<Rightarrow>
           and_then (series_isin L s valid_values) (\<lambda>flags.
             let all_valid = list_all (\<lambda>b. b) flags in
             Inr (mk_result exp_name all_valid (RCells (unique s))
                   (''Column '' @ col @ '' values should be in '' @ py_str valid_values)))
       | Frame ss \<Rightarrow>
           and_then (frame_isin L ss valid_values) (\<lambda>all_valid.
             Inl (attribute_error
                    (quoted ''DataFrame'' @ '' object has no attribute '' @ quoted ''unique''))))))"

definition eval_of_type :: "pandas \<Rightarrow> dataframe \<Rightarrow> string \<Rightarrow> rule \<Rightarrow> exc + result" where
  "eval_of_type L df exp_name exp =
     and_then (get_column exp) (\<lambda>col.
     and_then (get_param exp ''type_'') (\<lambda>expected_type.
     and_then (py_lower expected_type) (\<lambda>lowered.
     and_then (if str_contains lowered ''timestamp'' \<or> str_contains lowered ''date''
               then and_then (getitem df col) (\<lambda>sel.
                      case sel of
                        Column s \<Rightarrow> Inr (is_datetime64_any_dtype s)
                      | Frame ss \<Rightarrow> frame_is_datetime L ss)
               else Inr True) (\<lambda>success.
     and_then (getitem df col) (\<lambda>sel.
       case sel of
         Column s \<Rightarrow>
           Inr (mk_result exp_name success (RStr (dtype_text L s))
                 (''Column '' @ col @ '' should be of type '' @ py_str expected_type))
       | Frame ss \<Rightarrow>
           Inl (attribute_error
                  (quoted ''DataFrame'' @ '' object has no attribute '' @ quoted ''dtype'')))))))"

definition eval_skipped :: "string \<Rightarrow> result" where
  "eval_skipped exp_name =
     mk_result exp_name True (RStr ''Skipped'')
       (''Expectation '' @ exp_name @ '' not implemented in demo'')"

definition evaluate :: "pandas \<Rightarrow> dataframe \<Rightarrow> string \<Rightarrow> rule \<Rightarrow> exc + result" where
  "evaluate L df exp_name exp =
     (if exp_name = ''expect_table_row_count_to_be_between'' then eval_row_count df exp_name exp
      else if exp_name = ''expect_table_columns_to_match_ordered_list'' then eval_columns df exp_name exp
      else if exp_name = ''expect_column_values_to_not_be_null'' then eval_not_null L df exp_name exp
      else if exp_name = ''expect_column_values_to_be_unique'' then eval_unique L df exp_name exp
      else if exp_name = ''expect_column_values_to_match_regex'' then eval_regex df exp_name exp
      else if exp_name = ''expect_column_values_to_be_between'' then eval_between L df exp_name exp
      else if exp_name = ''expect_column_values_to_be_in_set'' then eval_in_set L df exp_name exp
      else if exp_name = ''expect_column_values_to_be_of_type'' then eval_of_type L df exp_name exp
      else Inr (eval_skipped exp_name))"

text \<open>The dictionary the \<^verbatim>\<open>except\<close> clause builds from the exception it caught.\<close>

definition error_result :: "string \<Rightarrow> exc \<Rightarrow> result" where
  "error_result exp_name e =
     mk_result exp_name False (RStr (''Error: '' @ str_exc e))
       (''Failed to run expectation '' @ exp_name)"

text \<open>
  One rule inside its \<^verbatim>\<open>try\<close>/\<^verbatim>\<open>except\<close>: the results that are appended to the list. When
  the chain raises, that is the result of the \<^verbatim>\<open>except\<close> clause. Otherwise the result of the
  chain is appended and its \<^verbatim>\<open>success\<close> is tested for the progress line, still inside the
  \<^verbatim>\<open>try\<close>: when that test raises, the \<^verbatim>\<open>except\<close> clause appends a second result for the
  same rule. The progress lines themselves are left to the next section; until then they
  are taken to be written without error.
\<close>

definition try_rule :: "pandas \<Rightarrow> dataframe \<Rightarrow> string \<Rightarrow> rule \<Rightarrow> result list" where
  "try_rule L df exp_name exp =
     (case evaluate L df exp_name exp of
        Inl e \<Rightarrow> [error_result exp_name e]
      | Inr result \<Rightarrow>
          (case success_truth result of
             Inl e \<Rightarrow> [result, error_result exp_name e]
           | Inr passed \<Rightarrow> [result]))"

text \<open>
  The \<^verbatim>\<open>for\<close> loop, with the list \<^verbatim>\<open>results\<close> it appends to. \<^verbatim>\<open>exp['name']\<close> is read
  before the \<^verbatim>\<open>try\<close>, so its \<^verbatim>\<open>KeyError\<close> leaves the function.
\<close>

fun run_loop :: "pandas \<Rightarrow> dataframe \<Rightarrow> rule list \<Rightarrow> result list \<Rightarrow> exc + result list" where
  "run_loop L df [] results = Inr results"
| "run_loop L df (exp # rest) results =
     (case name exp of
        None \<Rightarrow> Inl (key_error ''name'')
      | Some exp_name \<Rightarrow> run_loop L df rest (results @ try_rule L df exp_name exp))"

definition run_expectations_manually ::
    "pandas \<Rightarrow> dataframe \<Rightarrow> string \<Rightarrow> rule list \<Rightarrow> exc + result list" where
  "run_expectations_manually L df table_name expectations_config =
     run_loop L df expectations_config []"

section \<open>The progress lines\<close>








section \<open>Vocabulary of the properties\<close>


text \<open>
  A rule that has the key \<^verbatim>\<open>name\<close>; the results the loop appends for such a rule; and the
  first of them, which is the result built for the rule: by the chain, or by the \<^verbatim>\<open>except\<close>
  clause when the chain raises.
\<close>

definition named :: "rule \<Rightarrow> bool" where
  "named exp = (name exp \<noteq> None)"

definition rule_results :: "pandas \<Rightarrow> dataframe \<Rightarrow> rule \<Rightarrow> result list" where
  "rule_results L df exp = try_rule L df (the (name exp)) exp"

definition rule_result :: "pandas \<Rightarrow> dataframe \<Rightarrow> rule \<Rightarrow> result" where
  "rule_result L df exp =
     (case evaluate L df (the (name exp)) exp of
        Inr result \<Rightarrow> result
      | Inl e \<Rightarrow> error_result (the (name exp)) e)"

text \<open>A result whose \<^verbatim>\<open>success\<close> is a boolean.\<close>

definition plain :: "result \<Rightarrow> bool" where
  "plain r = (\<exists>b. r ''success'' = Some (RBool b))"


text \<open>
  The number of distinct values of a column when a missing value counts as a value: the
  reading of the uniqueness rule that is compared with \<open>nunique\<close> below.
\<close>

definition distinct_count_with_missing :: "series \<Rightarrow> nat" where
  "distinct_count_with_missing s = length (remdups (cells s))"

section \<open>The data of the source's own run\<close>

text \<open>
  The worked examples need an instance of the library operations. In this one the declared
  types print as in pandas 2, a Series of counts prints as pandas prints a short Series
  (one line per entry with the label, four spaces and the count set to the right, then the
  line of the declared type), and the operations that no example reaches raise.
\<close>

definition rjust :: "nat \<Rightarrow> string \<Rightarrow> string" where
  "rjust w s = replicate (w - length s) CHR '' '' @ s"

definition counts_repr :: "string \<Rightarrow> nat list \<Rightarrow> string" where
  "counts_repr label ks =
     (let w = foldr max (map (\<lambda>k. length (str_nat k)) ks) 0
      in concat (map (\<lambda>k. label @ ''    '' @ rjust w (str_nat k) @ [CHR 0x0A]) ks) @
         ''dtype: int64'')"

fun dtype_pandas2 :: "series \<Rightarrow> string" where
  "dtype_pandas2 (Integers vs) =
     (if list_all (\<lambda>v. - (2 ^ 63) \<le> v \<and> v < 2 ^ 63) vs then ''int64''
      else if list_all (\<lambda>v. 0 \<le> v \<and> v < 2 ^ 64) vs then ''uint64''
      else ''object'')"
| "dtype_pandas2 (Strings vs) = ''object''"
| "dtype_pandas2 (Timestamps vs) = ''datetime64[ns]''"

definition unavailable :: pandas where
  "unavailable =
     \<lparr>series_ge = (\<lambda>s v. Inl (Exception ''NotImplementedError'' [])),
      series_le = (\<lambda>s v. Inl (Exception ''NotImplementedError'' [])),
      series_min = (\<lambda>s. Inl (Exception ''NotImplementedError'' [])),
      series_max = (\<lambda>s. Inl (Exception ''NotImplementedError'' [])),
      series_isin = (\<lambda>s v. Inl (Exception ''NotImplementedError'' [])),
      dtype_text = dtype_pandas2,
      frame_between = (\<lambda>ss lo hi. Inl (Exception ''NotImplementedError'' [])),
      frame_isin = (\<lambda>ss v. Inl (Exception ''NotImplementedError'' [])),
      frame_min = (\<lambda>ss. Inl (Exception ''NotImplementedError'' [])),
      frame_max = (\<lambda>ss. Inl (Exception ''NotImplementedError'' [])),
      frame_is_datetime = (\<lambda>ss. Inl (Exception ''NotImplementedError'' [])),
      counts_text = counts_repr\<rparr>"

text \<open>The first frame of \<^verbatim>\<open>create_test_data\<close> and the first rule list of \<^verbatim>\<open>main\<close>.\<close>

definition test1_df :: dataframe where
  "test1_df =
     \<lparr>nrows = 6,
      cols =
        [(''id'', Integers [1, 2, 3, 4, 5, 6]),
         (''name'', Strings [Some ''Alice Johnson'', Some ''Bob Smith'', Some ''Carol Davis'',
                             Some ''David Wilson'', Some ''Eve Brown'', Some ''Frank Miller'']),
         (''email'', Strings [Some ''alice@example.com'', Some ''bob@example.com'',
                              Some ''carol@example.com'', Some ''david@example.com'',
                              Some ''eve@example.com'', Some ''frank@example.com'']),
         (''created_date'', Timestamps [Some 1705276800000000000, Some 1708387200000000000,
                                        Some 1710028800000000000, Some 1712275200000000000,
                                        Some 1715472000000000000, Some 1717804800000000000])]\<rparr>"

definition table_rule :: "string \<Rightarrow> (string \<rightharpoonup> pyval) \<Rightarrow> rule" where
  "table_rule n ps = \<lparr>name = Some n, column = None, parameters = Some ps\<rparr>"

definition column_rule :: "string \<Rightarrow> string \<Rightarrow> rule" where
  "column_rule n c = \<lparr>name = Some n, column = Some c, parameters = None\<rparr>"

definition column_rule_with :: "string \<Rightarrow> string \<Rightarrow> (string \<rightharpoonup> pyval) \<Rightarrow> rule" where
  "column_rule_with n c ps = \<lparr>name = Some n, column = Some c, parameters = Some ps\<rparr>"

definition test1_expectations :: "rule list" where
  "test1_expectations =
     [table_rule ''expect_table_row_count_to_be_between''
        [''min_value'' \<mapsto> PInt 1, ''max_value'' \<mapsto> PInt 1000000],
      table_rule ''expect_table_columns_to_match_ordered_list''
        [''column_list'' \<mapsto> PList [PStr ''id'', PStr ''name'', PStr ''email'', PStr ''created_date'']],
      column_rule ''expect_column_values_to_not_be_null'' ''id'',
      column_rule ''expect_column_values_to_be_unique'' ''id'',
      column_rule ''expect_column_values_to_not_be_null'' ''name'',
      column_rule_with ''expect_column_values_to_match_regex'' ''email'' [''regex'' \<mapsto> PStr ''email''],
      column_rule_with ''expect_column_values_to_be_of_type'' ''created_date''
        [''type_'' \<mapsto> PStr ''TimestampType'']]"

text \<open>A rule dictionary without the key \<^verbatim>\<open>name\<close>.\<close>

definition nameless_rule :: rule where
  "nameless_rule = \<lparr>name = None, column = Some ''id'', parameters = None\<rparr>"

text \<open>A frame whose string column has a missing value.\<close>

definition gap_df :: dataframe where
  "gap_df = \<lparr>nrows = 2, cols = [(''email'', Strings [Some ''a@x.com'', None])]\<rparr>"

text \<open>The identifier column of the source's data with its first value repeated.\<close>

definition dup_df :: dataframe where
  "dup_df = \<lparr>nrows = 6, cols = [(''id'', Integers [1, 1, 2, 3, 4, 5])]\<rparr>"

text \<open>A frame of one row in which two columns carry the same label.\<close>

definition twin_df :: dataframe where
  "twin_df = \<lparr>nrows = 1, cols = [(''a'', Integers [1]), (''a'', Integers [2])]\<rparr>"

definition twin_mail_df :: dataframe where
  "twin_mail_df =
     \<lparr>nrows = 1,
      cols = [(''email'', Strings [Some ''a@x.com'']), (''email'', Strings [Some ''b@x.com''])]\<rparr>"



section \<open>Basic facts\<close>

lemma and_then_Inr [simp]: "and_then (Inr x) f = f x"
  by (simp add: and_then_def)

lemma and_then_Inl [simp]: "and_then (Inl e) f = Inl e"
  by (simp add: and_then_def)

lemma mk_result_fields:
  "mk_result n s ov d ''expectation'' = Some (RStr n)"
  "mk_result n s ov d ''success'' = Some (RBool s)"
  "mk_result n s ov d ''observed_value'' = Some ov"
  "mk_result n s ov d ''details'' = Some (RStr d)"
  "mk_result n s ov d ''error'' = None"
  by (simp_all add: mk_result_def)

lemma mk_result_series_fields:
  "mk_result_series n bs ov d ''expectation'' = Some (RStr n)"
  "mk_result_series n bs ov d ''success'' = Some (RBools bs)"
  "mk_result_series n bs ov d ''observed_value'' = Some ov"
  "mk_result_series n bs ov d ''details'' = Some (RStr d)"
  by (simp_all add: mk_result_series_def)


lemma success_truth_plain [simp]: "success_truth (mk_result n s ov d) = Inr s"
  by (simp add: success_truth_def mk_result_fields)

lemma success_truth_series [simp]:
  "success_truth (mk_result_series n bs ov d) = Inl ambiguous_truth"
  by (simp add: success_truth_def mk_result_series_fields)

text \<open>Selecting by a label.\<close>

lemma select_absent:
  "map_of xs c = None \<Longrightarrow> map snd (filter (\<lambda>(label, s). label = c) xs) = []"
  by (induction xs) (auto split: if_splits)

lemma select_one:
  "distinct (map fst xs) \<Longrightarrow> map_of xs c = Some s \<Longrightarrow>
   map snd (filter (\<lambda>(label, s). label = c) xs) = [s]"
proof (induction xs)
  case Nil
  then show ?case by simp
next
  case (Cons x xs)
  obtain l t where x: "x = (l, t)" by (cases x)
  show ?case
  proof (cases "l = c")
    case True
    with Cons.prems x have "c \<notin> fst ` set xs" and "t = s" by auto
    then have "map_of xs c = None" by (simp add: map_of_eq_None_iff)
    then show ?thesis using True x \<open>t = s\<close> by (simp add: select_absent)
  next
    case False
    with Cons x show ?thesis by simp
  qed
qed

lemma getitem_absent: "map_of (cols df) c = None \<Longrightarrow> getitem df c = Inl (key_error c)"
  by (simp add: getitem_def select_absent)

lemma getitem_one:
  "distinct (map fst (cols df)) \<Longrightarrow> map_of (cols df) c = Some s \<Longrightarrow>
   getitem df c = Inr (Column s)"
  by (simp add: getitem_def select_one)

lemma getitem_distinct:
  assumes "distinct (map fst (cols df))"
  shows "getitem df c = Inl (key_error c) \<or> (\<exists>s. getitem df c = Inr (Column s))"
proof (cases "map_of (cols df) c")
  case None
  then show ?thesis by (simp add: getitem_absent)
next
  case (Some s)
  with assms show ?thesis by (simp add: getitem_one)
qed

text \<open>On a frame with distinct labels the chain builds results with a boolean success.\<close>

lemma plain_mk_result [simp]: "plain (mk_result n s ov d)"
  by (simp add: plain_def mk_result_fields)

lemma eval_not_null_plain:
  assumes "distinct (map fst (cols df))" and "eval_not_null L df n exp = Inr r"
  shows "plain r"
proof -
  from assms(2) obtain c where c: "get_column exp = Inr c"
    by (cases "get_column exp") (auto simp: eval_not_null_def)
  from getitem_distinct [OF assms(1), of c] assms(2) c show ?thesis
    by (auto simp: eval_not_null_def Let_def)
qed

lemma eval_unique_plain:
  assumes "distinct (map fst (cols df))" and "eval_unique L df n exp = Inr r"
  shows "plain r"
proof -
  from assms(2) obtain c where c: "get_column exp = Inr c"
    by (cases "get_column exp") (auto simp: eval_unique_def)
  from getitem_distinct [OF assms(1), of c] assms(2) c show ?thesis
    by (auto simp: eval_unique_def Let_def)
qed

lemma eval_regex_plain: "eval_regex df n exp = Inr r \<Longrightarrow> plain r"
  by (auto simp: eval_regex_def and_then_def Let_def split: sum.splits if_splits)

lemma eval_row_count_plain: "eval_row_count df n exp = Inr r \<Longrightarrow> plain r"
  by (auto simp: eval_row_count_def and_then_def Let_def split: sum.splits)

lemma eval_columns_plain: "eval_columns df n exp = Inr r \<Longrightarrow> plain r"
  by (auto simp: eval_columns_def and_then_def Let_def split: sum.splits simp del: py_eq.simps py_str.simps)

lemma eval_in_set_plain: "eval_in_set L df n exp = Inr r \<Longrightarrow> plain r"
  by (auto simp: eval_in_set_def and_then_def Let_def split: sum.splits selection.splits simp del: py_str.simps)

lemma eval_of_type_plain: "eval_of_type L df n exp = Inr r \<Longrightarrow> plain r"
  by (auto simp: eval_of_type_def and_then_def Let_def split: sum.splits selection.splits if_splits simp del: py_str.simps)

lemma eval_between_plain:
  assumes "distinct (map fst (cols df))" and "eval_between L df n exp = Inr r"
  shows "plain r"
proof -
  from assms(2) obtain c where c: "get_column exp = Inr c"
    by (cases "get_column exp") (auto simp: eval_between_def)
  from getitem_distinct [OF assms(1), of c] assms(2) c show ?thesis
    by (auto simp: eval_between_def and_then_def Let_def split: sum.splits simp del: py_str.simps)
qed

lemma evaluate_plain:
  assumes "distinct (map fst (cols df))" and "evaluate L df n exp = Inr r"
  shows "plain r"
  using assms
  by (auto simp: evaluate_def eval_skipped_def split: if_splits
      dest: eval_not_null_plain eval_unique_plain eval_regex_plain eval_row_count_plain
        eval_columns_plain eval_in_set_plain eval_of_type_plain eval_between_plain)



lemma try_rule_raises: "evaluate L df n exp = Inl e \<Longrightarrow> try_rule L df n exp = [error_result n e]"
  by (simp add: try_rule_def)

lemma try_rule_plain:
  "evaluate L df n exp = Inr r \<Longrightarrow> plain r \<Longrightarrow> try_rule L df n exp = [r]"
  by (auto simp: try_rule_def plain_def success_truth_def)

lemma rule_results_single:
  assumes "distinct (map fst (cols df))"
  shows "rule_results L df exp = [rule_result L df exp]"
proof (cases "evaluate L df (the (name exp)) exp")
  case (Inl e)
  then show ?thesis by (simp add: rule_results_def rule_result_def try_rule_raises)
next
  case (Inr r)
  with assms have "plain r" by (auto dest: evaluate_plain)
  with Inr show ?thesis by (simp add: rule_results_def rule_result_def try_rule_plain)
qed


lemma run_loop_unnamed:
  "\<not> list_all named rs \<Longrightarrow> run_loop L df rs acc = Inl (key_error ''name'')"
  by (induction rs arbitrary: acc) (auto simp: named_def split: option.splits)













section \<open>Facts about lists, columns and comparisons\<close>

lemma length_filter_eq: "length (filter P xs) = length xs \<longleftrightarrow> (\<forall>x\<in>set xs. P x)"
proof -
  have "length (filter P xs) + length (filter (\<lambda>x. \<not> P x) xs) = length xs"
    by (rule sum_length_filter_compl)
  then have "length (filter P xs) = length xs \<longleftrightarrow> filter (\<lambda>x. \<not> P x) xs = []"
    by auto
  then show ?thesis by (simp add: filter_empty_conv)
qed

lemma count_true_all: "count_true (map f vs) = length vs \<longleftrightarrow> (\<forall>v\<in>set vs. f v)"
proof -
  have "count_true (map f vs) = length (filter f vs)"
    by (simp add: count_true_def filter_map comp_def)
  then show ?thesis by (simp add: length_filter_eq)
qed

lemma length_remdups_eq: "length (remdups xs) = length xs \<longleftrightarrow> distinct xs"
proof
  assume "length (remdups xs) = length xs"
  then show "distinct xs"
    by (simp add: length_remdups_card_conv card_distinct)
next
  assume "distinct xs" then show "length (remdups xs) = length xs" by simp
qed

lemma nunique_full:
  "nunique s = len_series s \<longleftrightarrow> NA \<notin> set (cells s) \<and> distinct (cells s)"
proof -
  let ?xs = "cells s" let ?ys = "filter (\<lambda>c. c \<noteq> NA) ?xs"
  have le1: "length (remdups ?ys) \<le> length ?ys" by (rule length_remdups_leq)
  have le2: "length ?ys \<le> length ?xs" by (rule length_filter_le)
  show ?thesis
  proof
    assume "nunique s = len_series s"
    then have eq: "length (remdups ?ys) = length ?xs" by (simp add: nunique_def len_series_def)
    with le1 le2 have a: "length ?ys = length ?xs" and b: "length (remdups ?ys) = length ?ys" by simp_all
    from a have all: "\<forall>c\<in>set ?xs. c \<noteq> NA" by (simp add: length_filter_eq)
    then have "?ys = ?xs" by (simp add: filter_id_conv)
    with b have "distinct ?xs" by (simp add: length_remdups_eq)
    with all show "NA \<notin> set ?xs \<and> distinct ?xs" by auto
  next
    assume h: "NA \<notin> set ?xs \<and> distinct ?xs"
    then have "?ys = ?xs" by (auto simp: filter_id_conv)
    with h show "nunique s = len_series s" by (simp add: nunique_def len_series_def)
  qed
qed

lemma nunique_card: "nunique s = card (set (cells s) - {NA})"
proof -
  have "set (filter (\<lambda>c. c \<noteq> NA) (cells s)) = set (cells s) - {NA}" by auto
  then show ?thesis by (simp add: nunique_def length_remdups_card_conv)
qed

text \<open>The two string tests are what their names say.\<close>

lemma starts_with_iff: "starts_with s sub \<longleftrightarrow> (\<exists>post. s = sub @ post)"
  by (induction s sub rule: starts_with.induct) auto

lemma str_contains_iff: "str_contains s sub \<longleftrightarrow> (\<exists>pre post. s = pre @ sub @ post)"
proof (induction s)
  case Nil
  then show ?case by auto
next
  case (Cons x xs)
  show ?case
  proof
    assume "str_contains (x # xs) sub"
    then consider "starts_with (x # xs) sub" | "str_contains xs sub" by auto
    then show "\<exists>pre post. x # xs = pre @ sub @ post"
    proof cases
      case 1
      then obtain post where "x # xs = sub @ post" by (auto simp: starts_with_iff)
      then have "x # xs = [] @ sub @ post" by simp
      then show ?thesis by blast
    next
      case 2
      with Cons.IH obtain pre post where "xs = pre @ sub @ post" by auto
      then have "x # xs = (x # pre) @ sub @ post" by simp
      then show ?thesis by blast
    qed
  next
    assume "\<exists>pre post. x # xs = pre @ sub @ post"
    then obtain pre post where e: "x # xs = pre @ sub @ post" by auto
    show "str_contains (x # xs) sub"
    proof (cases pre)
      case Nil
      with e have "starts_with (x # xs) sub" by (auto simp: starts_with_iff)
      then show ?thesis by simp
    next
      case (Cons y pre')
      with e have "xs = pre' @ sub @ post" by simp
      with Cons.IH have "str_contains xs sub" by blast
      then show ?thesis by simp
    qed
  qed
qed

lemma starts_with_single: "starts_with s [c] \<longleftrightarrow> (\<exists>t. s = c # t)"
  by (cases s) auto

lemma str_contains_char: "str_contains t [c] \<longleftrightarrow> c \<in> set t"
  by (induction t) (auto simp: starts_with_single)

lemma py_eq_list_names: "py_eq_list (map PStr xs) ys \<longleftrightarrow> ys = map PStr xs"
proof (induction xs arbitrary: ys)
  case Nil
  then show ?case by auto
next
  case (Cons x xs)
  show ?case
  proof (cases ys)
    case Nil
    then show ?thesis by simp
  next
    case (Cons y ys')
    with Cons.IH show ?thesis by (cases y) auto
  qed
qed

lemma py_eq_names: "py_eq (PList (map PStr xs)) v \<longleftrightarrow> v = PList (map PStr xs)"
  by (cases v) (auto simp: py_eq_list_names)

lemma distinct_test1: "distinct (map fst (cols test1_df))"
  by (simp add: test1_df_def)





lemma getitem_twin: "getitem twin_df ''a'' = Inr (Frame [Integers [1], Integers [2]])"
  by (simp add: getitem_def twin_df_def)

lemma getitem_twin_mail:
  "getitem twin_mail_df ''email'' =
     Inr (Frame [Strings [Some ''a@x.com''], Strings [Some ''b@x.com'']])"
  by (simp add: getitem_def twin_mail_df_def)

lemma email_is_email: "str_contains (lower ''email'') ''email''"
  by code_simp

lemma getitem_gap: "getitem gap_df ''email'' = Inr (Column (Strings [Some ''a@x.com'', None]))"
  by (simp add: getitem_def gap_df_def)

section \<open>The batch: one result per rule, faults and unknown names\<close>












section \<open>The rule kinds\<close>



text \<open>
  \<^bold>\<open>C6\<close>. The ordered-column rule succeeds exactly when \<^verbatim>\<open>column_list\<close> is the list of the
  frame's column names, position for position; a different ordering of the same names
  fails, a list of another length fails, and \<^verbatim>\<open>observed_value\<close> is the list of the frame's
  column names. The rule gets this one result.
\<close>

theorem columns_match_ordered_list:
  assumes "name exp = Some ''expect_table_columns_to_match_ordered_list''"
    and "parameters exp = Some ps"
    and "ps ''column_list'' = Some v"
  shows "rule_result L df exp ''success'' = Some (RBool (v = PList (map PStr (columns_list df))))
         \<and> rule_result L df exp ''observed_value'' = Some (RNames (columns_list df))
         \<and> (v = PList (map PStr expected) \<longrightarrow>
              rule_result L df exp ''success'' = Some (RBool (columns_list df = expected)))
         \<and> (v = PList (map PStr expected) \<and> mset expected = mset (columns_list df) \<and>
             expected \<noteq> columns_list df \<longrightarrow>
              rule_result L df exp ''success'' = Some (RBool False))
         \<and> (v = PList (map PStr expected) \<and> length expected \<noteq> length (columns_list df) \<longrightarrow>
              rule_result L df exp ''success'' = Some (RBool False))
         \<and> rule_results L df exp = [rule_result L df exp]"
proof -
  let ?n = "''expect_table_columns_to_match_ordered_list''"
  let ?actual = "PList (map PStr (columns_list df))"
  let ?r = "mk_result ?n (v = ?actual) (RNames (columns_list df))
                (''Expected columns '' @ py_str v @ '', got '' @ py_str ?actual)"
  have inj: "map PStr expected = map PStr (columns_list df) \<longleftrightarrow> columns_list df = expected"
    by (auto simp: inj_on_def)
  have ev: "evaluate L df ?n exp = Inr ?r"
    using assms(2,3)
    by (simp add: evaluate_def eval_columns_def get_param_def Let_def py_eq_names
        del: py_eq.simps py_str.simps)
  then have rr: "rule_result L df exp = ?r"
    using assms(1) by (simp add: rule_result_def del: py_str.simps)
  have "try_rule L df ?n exp = [?r]"
    using ev by (rule try_rule_plain) simp
  then have "rule_results L df exp = [rule_result L df exp]"
    using assms(1) rr by (simp add: rule_results_def del: py_str.simps)
  then show ?thesis
    using inj rr by (auto simp: mk_result_fields simp del: py_str.simps)
qed

text \<open>
  The second rule of the source's list.
\<close>

theorem columns_match_ordered_list_witness:
  "name (test1_expectations ! 1) = Some ''expect_table_columns_to_match_ordered_list''
   \<and> parameters (test1_expectations ! 1) =
       Some [''column_list'' \<mapsto> PList (map PStr [''id'', ''name'', ''email'', ''created_date''])]
   \<and> rule_result unavailable test1_df (test1_expectations ! 1) ''success'' = Some (RBool True)
   \<and> rule_result unavailable test1_df (test1_expectations ! 1) ''observed_value'' =
       Some (RNames [''id'', ''name'', ''email'', ''created_date''])"
proof -
  let ?ps = "[''column_list'' \<mapsto> PList (map PStr [''id'', ''name'', ''email'', ''created_date''])]"
  have a: "name (test1_expectations ! 1) = Some ''expect_table_columns_to_match_ordered_list''"
    by (simp add: test1_expectations_def table_rule_def)
  have b: "parameters (test1_expectations ! 1) = Some ?ps"
    by (simp add: test1_expectations_def table_rule_def)
  have c: "?ps ''column_list'' = Some (PList (map PStr [''id'', ''name'', ''email'', ''created_date'']))"
    by simp
  have d: "columns_list test1_df = [''id'', ''name'', ''email'', ''created_date'']"
    by (simp add: columns_list_def test1_df_def)
  from columns_match_ordered_list [OF a b c, of unavailable test1_df "[''id'', ''name'', ''email'', ''created_date'']"]
  show ?thesis using a b d by simp
qed

text \<open>
  \<^bold>\<open>C7\<close>. The pattern rule with a pattern text, on a frame with distinct column labels:
  when the pattern contains \<^verbatim>\<open>email\<close> in any letter case or contains \<^verbatim>\<open>@\<close>, the rule
  succeeds on a column of strings exactly when every value of the column is present and
  contains \<^verbatim>\<open>@\<close> (a missing value counts as a value that does not match), and it fails on
  a column that is absent or is not a column of strings; for any other pattern it succeeds.
\<close>

theorem regex_rule_email_policy:
  assumes "name exp = Some ''expect_column_values_to_match_regex''"
    and "column exp = Some c"
    and "parameters exp = Some ps"
    and "ps ''regex'' = Some (PStr p)"
    and "distinct (map fst (cols df))"
  shows "(\<not> (str_contains (lower p) ''email'' \<or> str_contains p ''@'') \<longrightarrow>
            rule_result L df exp ''success'' = Some (RBool True))
         \<and> ((str_contains (lower p) ''email'' \<or> str_contains p ''@'') \<and>
             map_of (cols df) c = Some (Strings vs) \<and> length vs = len_df df \<longrightarrow>
            rule_result L df exp ''success'' =
              Some (RBool (\<forall>v\<in>set vs. \<exists>t. v = Some t \<and> CHR ''@'' \<in> set t)))
         \<and> ((str_contains (lower p) ''email'' \<or> str_contains p ''@'') \<and>
             (map_of (cols df) c = None \<or> map_of (cols df) c = Some (Integers ns) \<or>
              map_of (cols df) c = Some (Timestamps ts)) \<longrightarrow>
            rule_result L df exp ''success'' = Some (RBool False))
         \<and> rule_results L df exp = [rule_result L df exp]"
proof -
  let ?n = "''expect_column_values_to_match_regex''"
  let ?email = "str_contains (lower p) ''email'' \<or> str_contains p ''@''"
  let ?f = "\<lambda>v. case v of None \<Rightarrow> False | Some t \<Rightarrow> str_contains t ''@''"
  have rr: "rule_result L df exp =
      (case evaluate L df ?n exp of Inr r \<Rightarrow> r | Inl e \<Rightarrow> error_result ?n e)"
    using assms(1) by (simp add: rule_result_def split: sum.splits)
  have other: "rule_result L df exp ''success'' = Some (RBool True)" if "\<not> ?email"
  proof -
    have "evaluate L df ?n exp =
            Inr (mk_result ?n True (RStr ''Pattern check passed'')
                  (''Column '' @ c @ '' regex validation''))"
      using assms(2-4) that
      by (simp add: evaluate_def eval_regex_def get_column_def get_param_def)
    then show ?thesis
      by (simp add: rr mk_result_fields)
  qed
  have email: "rule_result L df exp ''success'' =
              Some (RBool (\<forall>v\<in>set vs. \<exists>t. v = Some t \<and> CHR ''@'' \<in> set t))"
    if "?email" "map_of (cols df) c = Some (Strings vs)" "length vs = len_df df"
  proof -
    have g: "getitem df c = Inr (Column (Strings vs))"
      using assms(5) that(2) by (rule getitem_one)
    have "evaluate L df ?n exp =
            Inr (mk_result ?n (count_true (map ?f vs) = len_df df)
                  (RStr (str_nat (count_true (map ?f vs)) @ '' valid emails out of '' @
                         str_nat (len_df df)))
                  (''Column '' @ c @ '' should match email pattern''))"
      using assms(2-4) that(1) g
      by (simp add: evaluate_def eval_regex_def get_column_def get_param_def
          str_contains_at_def Let_def)
    then have s: "rule_result L df exp ''success'' =
        Some (RBool (count_true (map ?f vs) = len_df df))"
      by (simp add: rr mk_result_fields)
    have "count_true (map ?f vs) = len_df df \<longleftrightarrow> (\<forall>v\<in>set vs. ?f v)"
      using that(3) count_true_all [of ?f vs] by simp
    also have "\<dots> \<longleftrightarrow> (\<forall>v\<in>set vs. \<exists>t. v = Some t \<and> CHR ''@'' \<in> set t)"
      by (auto simp: str_contains_char split: option.splits)
    finally show ?thesis using s by simp
  qed
  have fault: "rule_result L df exp ''success'' = Some (RBool False)"
    if "?email" "map_of (cols df) c = None \<or> map_of (cols df) c = Some (Integers ns) \<or>
              map_of (cols df) c = Some (Timestamps ts)"
  proof -
    from that(2) have "getitem df c = Inl (key_error c) \<or>
        getitem df c = Inr (Column (Integers ns)) \<or> getitem df c = Inr (Column (Timestamps ts))"
      using assms(5) by (auto simp: getitem_absent getitem_one)
    then have "\<exists>e. evaluate L df ?n exp = Inl e"
      using assms(2-4) that(1)
      by (auto simp: evaluate_def eval_regex_def get_column_def get_param_def
          str_contains_at_def)
    then show ?thesis
      by (auto simp: rr error_result_def mk_result_fields)
  qed
  have "rule_results L df exp = [rule_result L df exp]"
    using assms(5) by (rule rule_results_single)
  then show ?thesis using other email fault by blast
qed

text \<open>
  The pattern rule of the source's list on the e-mail column of its frame.
\<close>

theorem regex_rule_email_policy_witness:
  "name (test1_expectations ! 5) = Some ''expect_column_values_to_match_regex''
   \<and> column (test1_expectations ! 5) = Some ''email''
   \<and> parameters (test1_expectations ! 5) = Some [''regex'' \<mapsto> PStr ''email'']
   \<and> distinct (map fst (cols test1_df))
   \<and> (str_contains (lower ''email'') ''email'' \<or> str_contains ''email'' ''@'')
   \<and> rule_result unavailable test1_df (test1_expectations ! 5) ''success'' = Some (RBool True)"
proof -
  let ?ps = "[''regex'' \<mapsto> PStr ''email'']"
  let ?vs = "[Some ''alice@example.com'', Some ''bob@example.com'',
                             Some ''carol@example.com'', Some ''david@example.com'',
                             Some ''eve@example.com'', Some ''frank@example.com'']"
  have a: "name (test1_expectations ! 5) = Some ''expect_column_values_to_match_regex''"
    by (simp add: test1_expectations_def column_rule_with_def)
  have b: "column (test1_expectations ! 5) = Some ''email''"
    by (simp add: test1_expectations_def column_rule_with_def)
  have c: "parameters (test1_expectations ! 5) = Some ?ps"
    by (simp add: test1_expectations_def column_rule_with_def)
  have d: "?ps ''regex'' = Some (PStr ''email'')"
    by simp
  have e: "str_contains (lower ''email'') ''email'' \<or> str_contains ''email'' ''@''"
    by code_simp
  have f: "map_of (cols test1_df) ''email'' = Some (Strings ?vs)"
    by (simp add: test1_df_def)
  have g: "length ?vs = len_df test1_df"
    by (simp add: len_df_def test1_df_def)
  have h: "\<forall>v\<in>set ?vs. \<exists>t. v = Some t \<and> CHR ''@'' \<in> set t"
    by simp
  from regex_rule_email_policy [OF a b c d distinct_test1, where vs = ?vs and L = unavailable] e f g
  have "rule_result unavailable test1_df (test1_expectations ! 5) ''success'' =
          Some (RBool (\<forall>v\<in>set ?vs. \<exists>t. v = Some t \<and> CHR ''@'' \<in> set t))"
    by blast
  with h have "rule_result unavailable test1_df (test1_expectations ! 5) ''success'' = Some (RBool True)"
    by simp
  with a b c e distinct_test1 show ?thesis by blast
qed

text \<open>
  Counting the non-missing values only gives another answer. On a column with the values
  \<^verbatim>\<open>a@x.com\<close> and \<^verbatim>\<open>None\<close> every non-missing value contains \<^verbatim>\<open>@\<close>, and the rule fails:
  one valid value out of two. And where two columns carry the label, each with a value that
  contains \<^verbatim>\<open>@\<close>, the rule fails too: \<^verbatim>\<open>df[column]\<close> is a frame, which has no \<^verbatim>\<open>.str\<close>.
\<close>

theorem regex_rule_fails_on_missing_value:
  "map_of (cols gap_df) ''email'' = Some (Strings [Some ''a@x.com'', None])
   \<and> str_contains ''a@x.com'' ''@''
   \<and> rule_result unavailable gap_df
       (column_rule_with ''expect_column_values_to_match_regex'' ''email'' [''regex'' \<mapsto> PStr ''email''])
       ''success'' = Some (RBool False)
   \<and> rule_result unavailable gap_df
       (column_rule_with ''expect_column_values_to_match_regex'' ''email'' [''regex'' \<mapsto> PStr ''email''])
       ''observed_value'' = Some (RStr ''1 valid emails out of 2'')
   \<and> str_contains ''b@x.com'' ''@''
   \<and> rule_result unavailable twin_mail_df
       (column_rule_with ''expect_column_values_to_match_regex'' ''email'' [''regex'' \<mapsto> PStr ''email''])
       ''success'' = Some (RBool False)
   \<and> rule_result unavailable twin_mail_df
       (column_rule_with ''expect_column_values_to_match_regex'' ''email'' [''regex'' \<mapsto> PStr ''email''])
       ''observed_value'' =
         Some (RStr (''Error: '' @ quoted ''DataFrame'' @ '' object has no attribute '' @ quoted ''str''))"
proof -
  let ?r = "column_rule_with ''expect_column_values_to_match_regex'' ''email'' [''regex'' \<mapsto> PStr ''email'']"
  have l: "len_df gap_df = 2"
    by (simp add: len_df_def gap_df_def)
  have m: "map_of (cols gap_df) ''email'' = Some (Strings [Some ''a@x.com'', None])"
    by (simp add: gap_df_def)
  have gap: "evaluate unavailable gap_df ''expect_column_values_to_match_regex'' ?r =
      Inr (mk_result ''expect_column_values_to_match_regex'' False
             (RStr ''1 valid emails out of 2'') ''Column email should match email pattern'')"
    by (simp add: column_rule_with_def evaluate_def eval_regex_def get_column_def get_param_def
        getitem_gap str_contains_at_def count_true_def l email_is_email str_nat.simps
        digit_char_def Let_def)
  have twin: "evaluate unavailable twin_mail_df ''expect_column_values_to_match_regex'' ?r =
      Inl (attribute_error (quoted ''DataFrame'' @ '' object has no attribute '' @ quoted ''str''))"
    by (simp add: column_rule_with_def evaluate_def eval_regex_def get_column_def get_param_def
        getitem_twin_mail str_contains_at_def email_is_email)
  have n: "the (name ?r) = ''expect_column_values_to_match_regex''"
    by (simp add: column_rule_with_def)
  show ?thesis
    by (simp add: m rule_result_def n gap twin mk_result_fields error_result_def
        attribute_error_def)
qed

text \<open>
  \<^bold>\<open>C8\<close>. The uniqueness rule on a column of a frame with distinct column labels
  succeeds exactly when the number of distinct non-missing values of the column equals its
  length, that is when the column has no missing value and no value twice: \<^verbatim>\<open>nunique\<close> does
  not count a missing value. \<^verbatim>\<open>observed_value\<close> is the text \<^verbatim>\<open>u unique out of n\<close>.
\<close>

theorem column_unique_ignores_missing:
  assumes "name exp = Some ''expect_column_values_to_be_unique''"
    and "column exp = Some c"
    and "map_of (cols df) c = Some s"
    and "distinct (map fst (cols df))"
  shows "rule_result L df exp ''success'' = Some (RBool (nunique s = len_series s))
         \<and> (nunique s = len_series s \<longleftrightarrow> NA \<notin> set (cells s) \<and> distinct (cells s))
         \<and> nunique s = card (set (cells s) - {NA})
         \<and> rule_result L df exp ''observed_value'' =
             Some (RStr (str_nat (nunique s) @ '' unique out of '' @ str_nat (len_series s)))
         \<and> rule_results L df exp = [rule_result L df exp]"
proof -
  let ?n = "''expect_column_values_to_be_unique''"
  have g: "getitem df c = Inr (Column s)"
    using assms(4,3) by (rule getitem_one)
  have "evaluate L df ?n exp =
          Inr (mk_result ?n (nunique s = len_series s)
                (RStr (str_nat (nunique s) @ '' unique out of '' @ str_nat (len_series s)))
                (''Column '' @ c @ '' should have all unique values''))"
    using assms(2) g
    by (simp add: evaluate_def eval_unique_def get_column_def Let_def)
  then have "rule_result L df exp =
          mk_result ?n (nunique s = len_series s)
                (RStr (str_nat (nunique s) @ '' unique out of '' @ str_nat (len_series s)))
                (''Column '' @ c @ '' should have all unique values'')"
    using assms(1) by (simp add: rule_result_def)
  moreover have "rule_results L df exp = [rule_result L df exp]"
    using assms(4) by (rule rule_results_single)
  ultimately show ?thesis
    using nunique_full [of s] nunique_card [of s] by (simp add: mk_result_fields)
qed

text \<open>
  The two columns of the specification's example: six distinct identifiers pass, with one
  repeated the rule fails with five unique out of six.
\<close>

theorem column_unique_ignores_missing_witness:
  "name (column_rule ''expect_column_values_to_be_unique'' ''id'') =
     Some ''expect_column_values_to_be_unique''
   \<and> column (column_rule ''expect_column_values_to_be_unique'' ''id'') = Some ''id''
   \<and> map_of (cols test1_df) ''id'' = Some (Integers [1, 2, 3, 4, 5, 6])
   \<and> distinct (map fst (cols test1_df))
   \<and> rule_result unavailable test1_df (column_rule ''expect_column_values_to_be_unique'' ''id'')
       ''success'' = Some (RBool True)
   \<and> rule_result unavailable test1_df (column_rule ''expect_column_values_to_be_unique'' ''id'')
       ''observed_value'' = Some (RStr ''6 unique out of 6'')
   \<and> map_of (cols dup_df) ''id'' = Some (Integers [1, 1, 2, 3, 4, 5])
   \<and> distinct (map fst (cols dup_df))
   \<and> rule_result unavailable dup_df (column_rule ''expect_column_values_to_be_unique'' ''id'')
       ''success'' = Some (RBool False)
   \<and> rule_result unavailable dup_df (column_rule ''expect_column_values_to_be_unique'' ''id'')
       ''observed_value'' = Some (RStr ''5 unique out of 6'')"
proof -
  let ?r = "column_rule ''expect_column_values_to_be_unique'' ''id''"
  have a: "name ?r = Some ''expect_column_values_to_be_unique''"
    by (simp add: column_rule_def)
  have b: "column ?r = Some ''id''"
    by (simp add: column_rule_def)
  have c: "map_of (cols test1_df) ''id'' = Some (Integers [1, 2, 3, 4, 5, 6])"
    by (simp add: test1_df_def)
  have d: "map_of (cols dup_df) ''id'' = Some (Integers [1, 1, 2, 3, 4, 5])"
    by (simp add: dup_df_def)
  have dd: "distinct (map fst (cols dup_df))"
    by (simp add: dup_df_def)
  have e: "nunique (Integers [1, 2, 3, 4, 5, 6]) = 6" "len_series (Integers [1, 2, 3, 4, 5, 6]) = 6"
    "nunique (Integers [1, 1, 2, 3, 4, 5]) = 5" "len_series (Integers [1, 1, 2, 3, 4, 5]) = 6"
    by (simp_all add: nunique_def len_series_def)
  have f: "str_nat 6 = ''6''" "str_nat 5 = ''5''"
    by (simp_all add: str_nat.simps digit_char_def)
  from column_unique_ignores_missing [OF a b c distinct_test1, of unavailable]
       column_unique_ignores_missing [OF a b d dd, of unavailable]
  show ?thesis using a b c d dd distinct_test1 by (simp add: e f)
qed

text \<open>
  With a missing value counted as a value, the column \<^verbatim>\<open>a@x.com\<close>, \<^verbatim>\<open>None\<close> has two
  distinct values in two rows; the rule fails on it, with one unique out of two. And where
  two columns carry the label, the rule gets two results: one whose \<^verbatim>\<open>success\<close> is a Series,
  and the result of the exception that testing it raises.
\<close>

theorem column_unique_fails_on_missing_value:
  "map_of (cols gap_df) ''email'' = Some (Strings [Some ''a@x.com'', None])
   \<and> distinct_count_with_missing (Strings [Some ''a@x.com'', None]) = 2
   \<and> len_series (Strings [Some ''a@x.com'', None]) = 2
   \<and> rule_result unavailable gap_df (column_rule ''expect_column_values_to_be_unique'' ''email'')
       ''success'' = Some (RBool False)
   \<and> rule_result unavailable gap_df (column_rule ''expect_column_values_to_be_unique'' ''email'')
       ''observed_value'' = Some (RStr ''1 unique out of 2'')
   \<and> rule_results unavailable twin_df (column_rule ''expect_column_values_to_be_unique'' ''a'') =
       [mk_result_series ''expect_column_values_to_be_unique'' [True, True]
          (RStr (counts_repr ''a'' [1, 1] @ '' unique out of 1''))
          ''Column a should have all unique values'',
        error_result ''expect_column_values_to_be_unique'' ambiguous_truth]"
proof -
  let ?n = "''expect_column_values_to_be_unique''"
  have m: "map_of (cols gap_df) ''email'' = Some (Strings [Some ''a@x.com'', None])"
    by (simp add: gap_df_def)
  have gap: "rule_result unavailable gap_df (column_rule ?n ''email'') =
      mk_result ?n False (RStr ''1 unique out of 2'') ''Column email should have all unique values''"
    by (simp add: rule_result_def column_rule_def evaluate_def eval_unique_def get_column_def
        getitem_gap nunique_def len_series_def str_nat.simps digit_char_def Let_def)
  have s: "str_nat (Suc 0) = ''1''"
    by (simp add: str_nat.simps digit_char_def)
  have l: "len_df twin_df = 1"
    by (simp add: len_df_def twin_df_def)
  have "evaluate unavailable twin_df ?n (column_rule ?n ''a'') =
        Inr (mk_result_series ?n [True, True]
            (RStr (counts_repr ''a'' [1, 1] @ '' unique out of 1''))
            ''Column a should have all unique values'')"
    by (simp add: evaluate_def eval_unique_def get_column_def column_rule_def getitem_twin l
        nunique_def unavailable_def s)
  then have twin: "rule_results unavailable twin_df (column_rule ?n ''a'') =
       [mk_result_series ?n [True, True]
          (RStr (counts_repr ''a'' [1, 1] @ '' unique out of 1''))
          ''Column a should have all unique values'',
        error_result ?n ambiguous_truth]"
    by (simp add: rule_results_def try_rule_def column_rule_def)
  show ?thesis
    using m twin
    by (simp add: gap mk_result_fields distinct_count_with_missing_def len_series_def)
qed

text \<open>
  \<^bold>\<open>C9\<close>. The type rule with an expected type given as text, on a frame with distinct
  column labels. On a column of the frame: when the text contains \<^verbatim>\<open>timestamp\<close> or \<^verbatim>\<open>date\<close>
  in any letter case, the rule succeeds exactly when the column is a datetime column; for
  any other text it succeeds; and \<^verbatim>\<open>observed_value\<close> is the text of the column's declared
  type. On a column the frame does not have the rule fails whatever the expected type,
  with the \<^verbatim>\<open>KeyError\<close> in \<^verbatim>\<open>observed_value\<close>: the declared type is read for every expected
  type.
\<close>

theorem column_of_type_checks_temporal_only:
  assumes "name exp = Some ''expect_column_values_to_be_of_type''"
    and "column exp = Some c"
    and "parameters exp = Some ps"
    and "ps ''type_'' = Some (PStr ty)"
    and "distinct (map fst (cols df))"
  shows "(map_of (cols df) c = Some s \<longrightarrow>
            rule_result L df exp ''success'' =
              Some (RBool (if str_contains (lower ty) ''timestamp'' \<or> str_contains (lower ty) ''date''
                           then is_datetime64_any_dtype s else True))
            \<and> rule_result L df exp ''observed_value'' = Some (RStr (dtype_text L s)))
         \<and> (map_of (cols df) c = None \<longrightarrow>
            rule_result L df exp ''success'' = Some (RBool False)
            \<and> rule_result L df exp ''observed_value'' = Some (RStr (''Error: '' @ repr_str c)))
         \<and> rule_results L df exp = [rule_result L df exp]"
proof -
  let ?n = "''expect_column_values_to_be_of_type''"
  let ?b = "if str_contains (lower ty) ''timestamp'' \<or> str_contains (lower ty) ''date''
                        then is_datetime64_any_dtype s else True"
  have rr: "rule_result L df exp =
      (case evaluate L df ?n exp of Inr r \<Rightarrow> r | Inl e \<Rightarrow> error_result ?n e)"
    using assms(1) by (simp add: rule_result_def split: sum.splits)
  have present: "rule_result L df exp ''success'' = Some (RBool ?b)
            \<and> rule_result L df exp ''observed_value'' = Some (RStr (dtype_text L s))"
    if "map_of (cols df) c = Some s"
  proof -
    have g: "getitem df c = Inr (Column s)"
      using assms(5) that by (rule getitem_one)
    have "evaluate L df ?n exp =
          Inr (mk_result ?n ?b (RStr (dtype_text L s))
                (''Column '' @ c @ '' should be of type '' @ ty))"
      using assms(2-4) g
      by (simp add: evaluate_def eval_of_type_def get_column_def get_param_def)
    then show ?thesis
      by (simp add: rr mk_result_fields)
  qed
  have absent: "rule_result L df exp ''success'' = Some (RBool False)
            \<and> rule_result L df exp ''observed_value'' = Some (RStr (''Error: '' @ repr_str c))"
    if "map_of (cols df) c = None"
  proof -
    have g: "getitem df c = Inl (key_error c)"
      using that by (rule getitem_absent)
    have "evaluate L df ?n exp = Inl (key_error c)"
      using assms(2-4) g
      by (simp add: evaluate_def eval_of_type_def get_column_def get_param_def)
    then show ?thesis
      by (simp add: rr error_result_def mk_result_fields key_error_def)
  qed
  have "rule_results L df exp = [rule_result L df exp]"
    using assms(5) by (rule rule_results_single)
  then show ?thesis using present absent by blast
qed

text \<open>
  The last rule of the source's list: \<^verbatim>\<open>TimestampType\<close> on the creation dates.
\<close>

theorem column_of_type_checks_temporal_only_witness:
  "name (test1_expectations ! 6) = Some ''expect_column_values_to_be_of_type''
   \<and> column (test1_expectations ! 6) = Some ''created_date''
   \<and> parameters (test1_expectations ! 6) = Some [''type_'' \<mapsto> PStr ''TimestampType'']
   \<and> distinct (map fst (cols test1_df))
   \<and> rule_result unavailable test1_df (test1_expectations ! 6) ''success'' = Some (RBool True)
   \<and> rule_result unavailable test1_df (test1_expectations ! 6) ''observed_value'' =
       Some (RStr ''datetime64[ns]'')"
proof -
  let ?ps = "[''type_'' \<mapsto> PStr ''TimestampType'']"
  let ?s = "Timestamps [Some 1705276800000000000, Some 1708387200000000000,
                                        Some 1710028800000000000, Some 1712275200000000000,
                                        Some 1715472000000000000, Some 1717804800000000000]"
  have a: "name (test1_expectations ! 6) = Some ''expect_column_values_to_be_of_type''"
    by (simp add: test1_expectations_def column_rule_with_def)
  have b: "column (test1_expectations ! 6) = Some ''created_date''"
    by (simp add: test1_expectations_def column_rule_with_def)
  have c: "parameters (test1_expectations ! 6) = Some ?ps"
    by (simp add: test1_expectations_def column_rule_with_def)
  have d: "?ps ''type_'' = Some (PStr ''TimestampType'')"
    by simp
  have e: "map_of (cols test1_df) ''created_date'' = Some ?s"
    by (simp add: test1_df_def)
  have f: "str_contains (lower ''TimestampType'') ''timestamp''"
    by code_simp
  have g: "dtype_text unavailable ?s = ''datetime64[ns]''"
    by (simp add: unavailable_def)
  from column_of_type_checks_temporal_only [OF a b c d distinct_test1, where s = ?s and L = unavailable] e
  have "rule_result unavailable test1_df (test1_expectations ! 6) ''success'' =
          Some (RBool (if str_contains (lower ''TimestampType'') ''timestamp'' \<or>
                          str_contains (lower ''TimestampType'') ''date''
                       then is_datetime64_any_dtype ?s else True))
        \<and> rule_result unavailable test1_df (test1_expectations ! 6) ''observed_value'' =
            Some (RStr (dtype_text unavailable ?s))"
    by blast
  then show ?thesis using a b c f g distinct_test1 by simp
qed

text \<open>
  An expected type that is not temporal does not succeed on every input: on a column the
  source's frame does not have, \<^verbatim>\<open>IntegerType\<close> gives a failed result, and so it does where
  two columns carry the label, since a frame has no \<^verbatim>\<open>dtype\<close>.
\<close>

theorem other_type_fails_on_absent_column:
  "\<not> (str_contains (lower ''IntegerType'') ''timestamp'' \<or>
      str_contains (lower ''IntegerType'') ''date'')
   \<and> map_of (cols test1_df) ''nope'' = None
   \<and> run_expectations_manually unavailable test1_df ''test1''
       [column_rule_with ''expect_column_values_to_be_of_type'' ''nope''
          [''type_'' \<mapsto> PStr ''IntegerType'']] =
     Inr [error_result ''expect_column_values_to_be_of_type'' (key_error ''nope'')]
   \<and> error_result ''expect_column_values_to_be_of_type'' (key_error ''nope'') ''success'' =
       Some (RBool False)
   \<and> run_expectations_manually unavailable twin_df ''twin''
       [column_rule_with ''expect_column_values_to_be_of_type'' ''a''
          [''type_'' \<mapsto> PStr ''IntegerType'']] =
     Inr [error_result ''expect_column_values_to_be_of_type''
            (attribute_error
               (quoted ''DataFrame'' @ '' object has no attribute '' @ quoted ''dtype''))]"
proof -
  let ?n = "''expect_column_values_to_be_of_type''"
  let ?r = "column_rule_with ?n ''nope'' [''type_'' \<mapsto> PStr ''IntegerType'']"
  let ?q = "column_rule_with ?n ''a'' [''type_'' \<mapsto> PStr ''IntegerType'']"
  let ?e = "attribute_error (quoted ''DataFrame'' @ '' object has no attribute '' @ quoted ''dtype'')"
  have t: "\<not> (str_contains (lower ''IntegerType'') ''timestamp'' \<or>
      str_contains (lower ''IntegerType'') ''date'')"
    by code_simp
  have m: "map_of (cols test1_df) ''nope'' = None"
    by (simp add: test1_df_def)
  then have g: "getitem test1_df ''nope'' = Inl (key_error ''nope'')"
    by (rule getitem_absent)
  have "evaluate unavailable test1_df ?n ?r = Inl (key_error ''nope'')"
    using t g
    by (simp add: evaluate_def eval_of_type_def get_column_def get_param_def column_rule_with_def)
  then have "try_rule unavailable test1_df ?n ?r = [error_result ?n (key_error ''nope'')]"
    by (rule try_rule_raises)
  then have absent: "run_expectations_manually unavailable test1_df ''test1'' [?r] =
     Inr [error_result ?n (key_error ''nope'')]"
    by (simp add: run_expectations_manually_def column_rule_with_def)
  have "evaluate unavailable twin_df ?n ?q = Inl ?e"
    using t
    by (simp add: evaluate_def eval_of_type_def get_column_def get_param_def column_rule_with_def
        getitem_twin)
  then have "try_rule unavailable twin_df ?n ?q = [error_result ?n ?e]"
    by (rule try_rule_raises)
  then have twin: "run_expectations_manually unavailable twin_df ''twin'' [?q] =
     Inr [error_result ?n ?e]"
    by (simp add: run_expectations_manually_def column_rule_with_def)
  show ?thesis
    using t m absent twin by (simp add: error_result_def mk_result_fields)
qed

section \<open>A rule without a name\<close>

text \<open>
  \<^bold>\<open>C10\<close>. When a rule of the list has no key \<^verbatim>\<open>name\<close> the call raises \<^verbatim>\<open>KeyError: 'name'\<close>
  and returns nothing, whatever results the loop has collected before: the name is read
  outside the \<^verbatim>\<open>try\<close>.
\<close>

theorem missing_name_aborts:
  assumes "exp \<in> set rs" and "name exp = None"
  shows "run_expectations_manually L df t rs = Inl (key_error ''name'')
         \<and> run_loop L df rs results = Inl (key_error ''name'')"
proof -
  from assms have "\<not> list_all named rs"
    by (auto simp: list_all_iff named_def)
  then show ?thesis
    by (simp add: run_expectations_manually_def run_loop_unnamed)
qed

text \<open>
  The source's rule list with a nameless rule at its end: the seven results are lost.
\<close>

theorem missing_name_aborts_witness:
  "nameless_rule \<in> set (test1_expectations @ [nameless_rule])
   \<and> name nameless_rule = None
   \<and> run_expectations_manually unavailable test1_df ''test1''
       (test1_expectations @ [nameless_rule]) = Inl (key_error ''name'')"
proof -
  have a: "nameless_rule \<in> set (test1_expectations @ [nameless_rule])"
    by simp
  have b: "name nameless_rule = None"
    by (simp add: nameless_rule_def)
  from missing_name_aborts [OF a b, of unavailable test1_df "''test1''" "[]"]
  show ?thesis using a b by simp
qed

end
